theory Spec2Isabelle
  imports Main
begin

section \<open>Shared data\<close>

text \<open>
  A field-level validation entry, the object \<^verbatim>\<open>{param, msg}\<close> that the route and
  the validator build.
\<close>

record field_error =
  param :: string
  msg :: string

text \<open>
  A string of the request is a JavaScript string: a sequence of UTF-16 code units. The
  values that come from the payload are kept as such, so that every character the code
  can receive is there. \<open>js\<close> turns a literal of ASCII characters into its code units.
\<close>

type_synonym jsstring = "nat list"

definition js :: "string \<Rightarrow> jsstring" where
  "js s = map of_char s"

section \<open>Error normalization layer (the error handler middleware of the application)\<close>

text \<open>
  The error object as the handler reads it: \<^verbatim>\<open>err.message\<close>, \<^verbatim>\<open>err.api_status\<close>,
  \<^verbatim>\<open>err.api_code\<close>, \<^verbatim>\<open>err.locale_tag\<close> and \<^verbatim>\<open>err.errors\<close>. A property that may be
  undefined is an option. \<open>err_name\<close> is the name of the JavaScript error class; the handler
  does not read it, the two classifiers may. The fields \<open>api_status\<close> and \<open>api_code\<close> are read
  in the handled branch only.
\<close>

record err_obj =
  err_name :: string
  message :: "string option"
  api_status :: nat
  api_code :: string
  locale_tag :: "string option"
  errors :: "field_error list option"

text \<open>The JSON envelope passed to \<^verbatim>\<open>res.send\<close>; the key \<^verbatim>\<open>errors\<close> may be absent.\<close>

record envelope =
  env_error :: string
  env_error_code :: string
  env_errors :: "field_error list option"

text \<open>What the middleware does to the response and the pipeline, in program order.\<close>

datatype effect =
    Status nat
  | Send envelope
  | Next err_obj

text \<open>
  \<^verbatim>\<open>a || b\<close> on a string that may be undefined: the empty string and undefined are falsy.
\<close>

definition js_or :: "string option \<Rightarrow> string \<Rightarrow> string" where
  "js_or v d = (case v of None \<Rightarrow> d | Some s \<Rightarrow> (if s = [] then d else s))"

text \<open>A value inside a template literal: undefined prints as \<^verbatim>\<open>undefined\<close>.\<close>

definition template_str :: "string option \<Rightarrow> string" where
  "template_str v = (case v of None \<Rightarrow> ''undefined'' | Some s \<Rightarrow> s)"

text \<open>
  The handler. \<^verbatim>\<open>Error.isHandled\<close> and \<^verbatim>\<open>DbUtils.checkConnectionErr\<close> are helpers of
  modules that are not part of the sources at hand, and \<^verbatim>\<open>res.__\<close> is the i18n lookup of
  the request: the three are parameters. An array is truthy in JavaScript, also the empty
  one, so \<^verbatim>\<open>if (err.errors)\<close> tests that the property is there.
\<close>

definition error_handler ::
  "(err_obj \<Rightarrow> bool) \<Rightarrow> (err_obj \<Rightarrow> bool) \<Rightarrow> (string \<Rightarrow> string) \<Rightarrow> err_obj \<Rightarrow> effect list" where
  "error_handler isHandled checkConnectionErr tr err =
     (if isHandled err then
        [Status (api_status err),
         Send \<lparr>env_error = js_or (message err) (tr (''DEFAULT_ERRORS.'' @ template_str (locale_tag err))),
               env_error_code = api_code err,
               env_errors = (case errors err of None \<Rightarrow> None | Some es \<Rightarrow> Some es)\<rparr>]
      else if checkConnectionErr err then
        [Status 503,
         Send \<lparr>env_error = tr ''DEFAULT_ERRORS.TEMPORARILY_UNAVAILABLE'',
               env_error_code = ''temporarily_unavailable'',
               env_errors = None\<rparr>]
      else
        [Status 500,
         Send \<lparr>env_error = tr ''DEFAULT_ERRORS.SERVER_ERROR'',
               env_error_code = ''server_error'',
               env_errors = None\<rparr>,
         Next err])"

section \<open>Input validation (the schema of the registration route)\<close>

text \<open>
  The request body. Every field is a JavaScript string or undefined (\<open>None\<close>); the route
  reads no other key.
\<close>

record reg_body =
  first_name :: "jsstring option"
  last_name :: "jsstring option"
  contact_phone :: "jsstring option"
  email :: "jsstring option"
  password :: "jsstring option"
  cnf_password :: "jsstring option"

text \<open>
  The sanitizer \<^verbatim>\<open>trim: true\<close> removes, at both ends, the code units of the class
  \<^verbatim>\<open>\s\<close> of JavaScript regular expressions: the white space TAB, VT, FF, SP, NBSP
  (U+00A0), the byte order mark U+FEFF and the other space separators of Unicode (U+1680,
  U+2000 to U+200A, U+202F, U+205F, U+3000), and the line terminators LF, CR, U+2028 and
  U+2029. A sanitizer touches strings only, so undefined stays undefined.
\<close>

definition is_space :: "nat \<Rightarrow> bool" where
  "is_space c =
     (c \<in> {0x0009, 0x000A, 0x000B, 0x000C, 0x000D, 0x0020, 0x00A0, 0x1680,
           0x2028, 0x2029, 0x202F, 0x205F, 0x3000, 0xFEFF} \<or>
      (0x2000 \<le> c \<and> c \<le> 0x200A))"

definition ltrim :: "jsstring \<Rightarrow> jsstring" where
  "ltrim s = dropWhile is_space s"

definition rtrim :: "jsstring \<Rightarrow> jsstring" where
  "rtrim s = rev (dropWhile is_space (rev s))"

definition trim :: "jsstring \<Rightarrow> jsstring" where
  "trim s = rtrim (ltrim s)"

text \<open>A standard validator sees the value as a string; undefined becomes the empty string.\<close>

definition toString :: "jsstring option \<Rightarrow> jsstring" where
  "toString v = (case v of None \<Rightarrow> [] | Some s \<Rightarrow> s)"

text \<open>
  A validator gets the request body and the sanitized value of its field. A rule is a
  validator, its \<^verbatim>\<open>negated\<close> flag and the key of its localized message.
\<close>

type_synonym validator = "reg_body \<Rightarrow> jsstring option \<Rightarrow> bool"

type_synonym rule = "validator \<times> bool \<times> string"

definition isEmpty :: validator where
  "isEmpty body v = (toString v = [])"

definition standard :: "(jsstring \<Rightarrow> bool) \<Rightarrow> validator" where
  "standard p body v = p (toString v)"

text \<open>
  The custom validator of \<^verbatim>\<open>cnf_password\<close>:
  \<^verbatim>\<open>const {password} = req.body; return password && password === value;\<close>
  The result is truthy when the password is a non-empty string that is identical to the
  value.
\<close>

definition cnf_password_custom :: validator where
  "cnf_password_custom body v =
     (case password body of None \<Rightarrow> False | Some p \<Rightarrow> p \<noteq> [] \<and> Some p = v)"

text \<open>A rule fails when its result is falsy, or truthy for a negated rule.\<close>

definition rule_fails :: "rule \<Rightarrow> reg_body \<Rightarrow> jsstring option \<Rightarrow> bool" where
  "rule_fails r body v =
     (case r of (check, negated, key) \<Rightarrow> (if negated then check body v else \<not> check body v))"

text \<open>
  One field of the schema, as the validation library runs it: the value is read from the
  body and trimmed, the trimmed value is written back to the body, and every rule of the
  field is run on it in the order of the schema; each failing rule adds one entry with the
  field's name and the rule's localized message (\<open>tr\<close> is \<^verbatim>\<open>req.__\<close>).
\<close>

definition run_chain ::
  "(string \<Rightarrow> string) \<Rightarrow> string \<Rightarrow> (reg_body \<Rightarrow> jsstring option) \<Rightarrow>
   (jsstring option \<Rightarrow> reg_body \<Rightarrow> reg_body) \<Rightarrow> rule list \<Rightarrow>
   reg_body \<Rightarrow> reg_body \<times> field_error list" where
  "run_chain tr name sel upd rules body =
     (let v = map_option trim (sel body);
          body' = upd v body
      in (body',
          map (\<lambda>r. case r of (check, negated, key) \<Rightarrow> \<lparr>param = name, msg = tr key\<rparr>)
              (filter (\<lambda>r. rule_fails r body' v) rules)))"

text \<open>
  The schema of \<^verbatim>\<open>accountsReg\<close>, field by field in the order it is written. The
  library predicates \<^verbatim>\<open>isInt\<close> and \<^verbatim>\<open>isEmail\<close> are parameters.
\<close>

definition accountsReg_schema ::
  "(jsstring \<Rightarrow> bool) \<Rightarrow> (jsstring \<Rightarrow> bool) \<Rightarrow> (string \<Rightarrow> string) \<Rightarrow>
   (reg_body \<Rightarrow> reg_body \<times> field_error list) list" where
  "accountsReg_schema isInt isEmail tr =
     [run_chain tr ''first_name'' first_name (\<lambda>v b. b\<lparr>first_name := v\<rparr>)
        [(isEmpty, True, ''VAL_ERRORS.USR_ACC_NEW_MISSING_F_NAME'')],
      run_chain tr ''last_name'' last_name (\<lambda>v b. b\<lparr>last_name := v\<rparr>)
        [],
      run_chain tr ''contact_phone'' contact_phone (\<lambda>v b. b\<lparr>contact_phone := v\<rparr>)
        [(isEmpty, True, ''VAL_ERRORS.USR_ACC_NEW_MISSING_PHONE''),
         (standard isInt, False, ''VAL_ERRORS.USR_ACC_NEW_INVALID_PHONE'')],
      run_chain tr ''email'' email (\<lambda>v b. b\<lparr>email := v\<rparr>)
        [(isEmpty, True, ''VAL_ERRORS.USR_ACC_NEW_MISSING_EMAIL''),
         (standard isEmail, False, ''VAL_ERRORS.USR_ACC_NEW_INVALID_EMAIL'')],
      run_chain tr ''password'' password (\<lambda>v b. b\<lparr>password := v\<rparr>)
        [(isEmpty, True, ''VAL_ERRORS.USR_ACC_NEW_MISSING_PWD'')],
      run_chain tr ''cnf_password'' cnf_password (\<lambda>v b. b\<lparr>cnf_password := v\<rparr>)
        [(isEmpty, True, ''VAL_ERRORS.USR_ACC_NEW_MISSING_CNF_PWD''),
         (cnf_password_custom, False, ''VAL_ERRORS.USR_ACC_NEW_CNF_PWD_MISMATCH'')]]"

text \<open>
  \<^verbatim>\<open>checkSchema\<close> yields one middleware for each field; they run one after the other
  on the same request, and the entries they find are collected in order.
\<close>

fun checkSchema ::
  "(reg_body \<Rightarrow> reg_body \<times> field_error list) list \<Rightarrow> reg_body \<Rightarrow> reg_body \<times> field_error list" where
  "checkSchema [] body = (body, [])"
| "checkSchema (c # cs) body =
     (case c body of (body1, errs1) \<Rightarrow>
        (case checkSchema cs body1 of (body2, errs2) \<Rightarrow> (body2, errs1 @ errs2)))"

text \<open>
  Stand-ins for the two library predicates, used where the model is run on a concrete
  payload: a run of ASCII digits, and a string with an \<^verbatim>\<open>@\<close> in it. Every general
  statement below is about arbitrary predicates.
\<close>

definition sample_isInt :: "jsstring \<Rightarrow> bool" where
  "sample_isInt s = (s \<noteq> [] \<and> list_all (\<lambda>c. c \<in> set (js ''0123456789'')) s)"

definition sample_isEmail :: "jsstring \<Rightarrow> bool" where
  "sample_isEmail s = (of_char CHR ''@'' \<in> set s)"

section \<open>The store and the registration workflow\<close>

text \<open>
  What travels through \<^verbatim>\<open>next(err)\<close> from the route: the result of
  \<^verbatim>\<open>Error.ValidationError(list)\<close>, or whatever a call to the data layer was rejected
  with (kept as it is).
\<close>

datatype app_error =
    ValidationError "field_error list"
  | DbError string

text \<open>
  The two kinds of stored document. An account holds the email and the pair
  \<^verbatim>\<open>password: {hash, salt}\<close>; \<open>acc_id\<close> is \<^verbatim>\<open>account.id\<close>. A profile holds
  \<^verbatim>\<open>account_id\<close>, \<^verbatim>\<open>profile.first_name\<close>, \<^verbatim>\<open>profile.last_name\<close> and
  \<^verbatim>\<open>contact.phone\<close>.
\<close>

record account =
  acc_id :: nat
  acc_email :: "jsstring option"
  acc_hash :: jsstring
  acc_salt :: jsstring

record profile =
  account_id :: nat
  prof_first_name :: "jsstring option"
  prof_last_name :: "jsstring option"
  prof_phone :: "jsstring option"

datatype db_op =
    FindOneAccount "jsstring option"
  | CreateAccount "jsstring option"
  | CreateProfile nat

text \<open>
  The store: the two collections, the next identifier to hand out, and the log of the
  calls made to the data layer (a rejected call is logged as well).
\<close>

record store =
  accounts :: "account list"
  profiles :: "profile list"
  next_id :: nat
  oplog :: "db_op list"

text \<open>
  The data layer \<^verbatim>\<open>res.locals.db\<close> (the account and profile models and the library
  under them) is not part of the sources at hand; the three calls the controller makes are
  modelled from the spec. The spec gives two collections, accounts with a unique email and
  an identifier assigned at creation, and profiles with a reference to an account; a call
  fails at once when the store is not reachable. \<open>fault n\<close> says whether the call number
  \<open>n\<close> to the data layer is rejected, and with what.
\<close>

text \<open>
  Modelled from the spec: \<^verbatim>\<open>db.accounts.findOne({email})\<close>, the first account with
  that email, if any. It reads and writes nothing but the log.
\<close>

definition accounts_findOne ::
  "(nat \<Rightarrow> string option) \<Rightarrow> jsstring option \<Rightarrow> store \<Rightarrow> (app_error + account option) \<times> store" where
  "accounts_findOne fault em st =
     (let st1 = st\<lparr>oplog := oplog st @ [FindOneAccount em]\<rparr> in
      case fault (length (oplog st)) of
        Some e \<Rightarrow> (Inl (DbError e), st1)
      | None \<Rightarrow> (Inr (find (\<lambda>a. acc_email a = em) (accounts st)), st1))"

text \<open>
  Modelled from the spec: \<^verbatim>\<open>db.accounts.create({email, password: {hash, salt}})\<close>.
  The new account gets the next identifier and is appended; the unique index on the email
  rejects a second account with an email that is already stored.
\<close>

definition accounts_create ::
  "(nat \<Rightarrow> string option) \<Rightarrow> jsstring option \<Rightarrow> jsstring \<times> jsstring \<Rightarrow> store \<Rightarrow>
   (app_error + account) \<times> store" where
  "accounts_create fault em pw st =
     (let st1 = st\<lparr>oplog := oplog st @ [CreateAccount em]\<rparr> in
      case fault (length (oplog st)) of
        Some e \<Rightarrow> (Inl (DbError e), st1)
      | None \<Rightarrow>
          if em \<in> set (map acc_email (accounts st)) then (Inl (DbError ''duplicate key''), st1)
          else
            (let a = \<lparr>acc_id = next_id st, acc_email = em, acc_hash = fst pw, acc_salt = snd pw\<rparr>
             in (Inr a, st1\<lparr>accounts := accounts st @ [a], next_id := Suc (next_id st)\<rparr>)))"

text \<open>
  Modelled from the spec: \<^verbatim>\<open>db.profile.create(doc)\<close>, which appends the profile.
\<close>

definition profile_create ::
  "(nat \<Rightarrow> string option) \<Rightarrow> profile \<Rightarrow> store \<Rightarrow> (app_error + profile) \<times> store" where
  "profile_create fault p st =
     (let st1 = st\<lparr>oplog := oplog st @ [CreateProfile (account_id p)]\<rparr> in
      case fault (length (oplog st)) of
        Some e \<Rightarrow> (Inl (DbError e), st1)
      | None \<Rightarrow> (Inr p, st1\<lparr>profiles := profiles st @ [p]\<rparr>))"

text \<open>
  The controller of \<^verbatim>\<open>accountsReg\<close>. \<open>Inr\<close> is \<^verbatim>\<open>res.json({account, profile})\<close>,
  \<open>Inl\<close> is \<^verbatim>\<open>next(err)\<close>. \<^verbatim>\<open>initPasswordHash\<close> belongs to the accounts module,
  which is not part of the sources at hand: it is a parameter that returns the pair
  (hash, salt).
\<close>

definition accountsReg_controller ::
  "(string \<Rightarrow> string) \<Rightarrow> (jsstring option \<Rightarrow> jsstring \<times> jsstring) \<Rightarrow> (nat \<Rightarrow> string option) \<Rightarrow>
   reg_body \<Rightarrow> store \<Rightarrow> (app_error + account \<times> profile) \<times> store" where
  "accountsReg_controller tr initPasswordHash fault params st =
     (case accounts_findOne fault (email params) st of
        (Inl e, st1) \<Rightarrow> (Inl e, st1)
      | (Inr (Some existingAcc), st1) \<Rightarrow>
          (Inl (ValidationError
                 [\<lparr>param = ''email'', msg = tr ''VAL_ERRORS.USR_ACC_NEW_EMAIL_EXISTS''\<rparr>]), st1)
      | (Inr None, st1) \<Rightarrow>
          (case initPasswordHash (password params) of (hash, salt) \<Rightarrow>
             (case accounts_create fault (email params) (hash, salt) st1 of
                (Inl e, st2) \<Rightarrow> (Inl e, st2)
              | (Inr account, st2) \<Rightarrow>
                  (case profile_create fault
                          \<lparr>account_id = acc_id account,
                           prof_first_name = first_name params,
                           prof_last_name = last_name params,
                           prof_phone = contact_phone params\<rparr> st2 of
                     (Inl e, st3) \<Rightarrow> (Inl e, st3)
                   | (Inr profile, st3) \<Rightarrow> (Inr (account, profile), st3)))))"

text \<open>
  Modelled from the spec: the interceptor \<^verbatim>\<open>InputValidator()\<close> (the interceptors
  module is not part of the sources at hand). On any violation it stops the pipeline with
  the list of entries as a validation error; with no violation the request goes on.
\<close>

definition InputValidator :: "field_error list \<Rightarrow> app_error option" where
  "InputValidator errs = (if errs = [] then None else Some (ValidationError errs))"

text \<open>The route: the schema, the interceptor, then the controller on the sanitized body.\<close>

definition accountsReg ::
  "(jsstring \<Rightarrow> bool) \<Rightarrow> (jsstring \<Rightarrow> bool) \<Rightarrow> (string \<Rightarrow> string) \<Rightarrow>
   (jsstring option \<Rightarrow> jsstring \<times> jsstring) \<Rightarrow> (nat \<Rightarrow> string option) \<Rightarrow>
   reg_body \<Rightarrow> store \<Rightarrow> (app_error + account \<times> profile) \<times> store" where
  "accountsReg isInt isEmail tr initPasswordHash fault body st =
     (case checkSchema (accountsReg_schema isInt isEmail tr) body of (body1, errs) \<Rightarrow>
        (case InputValidator errs of
           Some e \<Rightarrow> (Inl e, st)
         | None \<Rightarrow> accountsReg_controller tr initPasswordHash fault body1 st))"

section \<open>Connection bootstrap (core/mongoose.js)\<close>

datatype conn_event =
    Connected
  | Disconnected
  | Reconnect
  | ConnError string

datatype log_entry =
    LogInfo string
  | LogError string string

text \<open>A listener returns, or throws what it was given.\<close>

datatype outcome =
    Returned
  | Thrown string

text \<open>The four listeners the bootstrap registers on the connection.\<close>

fun connection_listener :: "conn_event \<Rightarrow> log_entry list \<times> outcome" where
  "connection_listener Connected = ([LogInfo ''core.mongoose - connection - connected''], Returned)"
| "connection_listener Disconnected = ([LogInfo ''core.mongoose - connection - disconnected''], Returned)"
| "connection_listener Reconnect = ([LogInfo ''core.mongoose - connection - reconnect''], Returned)"
| "connection_listener (ConnError err) =
     ([LogError ''core.mongoose - connection - error - '' err], Thrown err)"

text \<open>
  The bootstrap installs nothing when no URI is configured
  (\<^verbatim>\<open>if (!MONGO_DB_URI) return;\<close>: undefined and the empty string are falsy).
\<close>

definition core_mongoose :: "string option \<Rightarrow> (conn_event \<Rightarrow> log_entry list \<times> outcome) option" where
  "core_mongoose uri =
     (case uri of
        None \<Rightarrow> None
      | Some u \<Rightarrow> (if u = [] then None else Some connection_listener))"

text \<open>
  The process: it serves, or it has ended with an error nobody caught. The connection calls
  its listener when an event occurs; nothing in the sources catches what the listener
  throws, and an exception that nobody catches ends the process of the runtime. A process
  that has ended takes no further event.
\<close>

datatype proc_state =
    Serving "log_entry list"
  | Crashed "log_entry list" string

fun dispatch ::
  "(conn_event \<Rightarrow> log_entry list \<times> outcome) \<Rightarrow> proc_state \<Rightarrow> conn_event \<Rightarrow> proc_state" where
  "dispatch h (Crashed l e) ev = Crashed l e"
| "dispatch h (Serving l) ev =
     (case h ev of
        (out, Returned) \<Rightarrow> Serving (l @ out)
      | (out, Thrown e) \<Rightarrow> Crashed (l @ out) e)"


section \<open>Properties of the error normalization layer\<close>

text \<open>
  C4. An error that the layer classifies as a storage-connectivity error (the handled test
  fails and \<^verbatim>\<open>checkConnectionErr\<close> accepts it) is answered with status 503 and an envelope
  whose code is \<^verbatim>\<open>temporarily_unavailable\<close> and whose message is the localized default;
  nothing is forwarded.
\<close>

theorem connectivity_error_503:
  assumes "\<not> isHandled err" and "checkConnectionErr err"
  shows "error_handler isHandled checkConnectionErr tr err =
           [Status 503,
            Send \<lparr>env_error = tr ''DEFAULT_ERRORS.TEMPORARILY_UNAVAILABLE'',
                  env_error_code = ''temporarily_unavailable'',
                  env_errors = None\<rparr>]"
  using assms by (simp add: error_handler_def)

theorem connectivity_error_503_witness:
  "error_handler (\<lambda>e. err_name e = ''HandledError'') (\<lambda>e. err_name e = ''MongooseError'') (\<lambda>k. k)
     \<lparr>err_name = ''MongooseError'', message = Some ''buffering disabled'', api_status = 0,
      api_code = [], locale_tag = None, errors = None\<rparr> =
   [Status 503,
    Send \<lparr>env_error = ''DEFAULT_ERRORS.TEMPORARILY_UNAVAILABLE'',
          env_error_code = ''temporarily_unavailable'',
          env_errors = None\<rparr>]"
  using connectivity_error_503
    [of "\<lambda>e. err_name e = ''HandledError''"
        "\<lparr>err_name = ''MongooseError'', message = Some ''buffering disabled'', api_status = 0,
          api_code = [], locale_tag = None, errors = None\<rparr>"
        "\<lambda>e. err_name e = ''MongooseError''" "\<lambda>k. k"]
  by simp

text \<open>
  C5. An error that is neither handled nor a connectivity error is answered with status 500,
  code \<^verbatim>\<open>server_error\<close> and the generic localized message, and after the response is sent
  the same error object is passed on to the next error middleware.
\<close>

theorem unclassified_error_500_and_forwarded:
  assumes "\<not> isHandled err" and "\<not> checkConnectionErr err"
  shows "error_handler isHandled checkConnectionErr tr err =
           [Status 500,
            Send \<lparr>env_error = tr ''DEFAULT_ERRORS.SERVER_ERROR'',
                  env_error_code = ''server_error'',
                  env_errors = None\<rparr>,
            Next err]"
  using assms by (simp add: error_handler_def)

theorem unclassified_error_500_and_forwarded_witness:
  "error_handler (\<lambda>e. err_name e = ''HandledError'') (\<lambda>e. err_name e = ''MongooseError'') (\<lambda>k. k)
     \<lparr>err_name = ''TypeError'', message = Some ''x is not a function'', api_status = 0,
      api_code = [], locale_tag = None, errors = None\<rparr> =
   [Status 500,
    Send \<lparr>env_error = ''DEFAULT_ERRORS.SERVER_ERROR'',
          env_error_code = ''server_error'',
          env_errors = None\<rparr>,
    Next \<lparr>err_name = ''TypeError'', message = Some ''x is not a function'', api_status = 0,
          api_code = [], locale_tag = None, errors = None\<rparr>]"
  using unclassified_error_500_and_forwarded
    [of "\<lambda>e. err_name e = ''HandledError''"
        "\<lparr>err_name = ''TypeError'', message = Some ''x is not a function'', api_status = 0,
          api_code = [], locale_tag = None, errors = None\<rparr>"
        "\<lambda>e. err_name e = ''MongooseError''" "\<lambda>k. k"]
  by simp

text \<open>
  C6. A handled error is answered with its own status and code. The message is the error's
  message when it has one (a non-empty string), and otherwise the entry of the localized
  table under \<^verbatim>\<open>DEFAULT_ERRORS.\<close> followed by the error's locale tag. The envelope has
  an \<^verbatim>\<open>errors\<close> key exactly when the error has one, with the same list. Nothing is
  forwarded.
\<close>

theorem handled_error_envelope:
  assumes "isHandled err"
  shows "error_handler isHandled checkConnectionErr tr err =
           [Status (api_status err),
            Send \<lparr>env_error =
                    (case message err of
                       Some m \<Rightarrow> if m \<noteq> [] then m
                                 else tr (''DEFAULT_ERRORS.'' @ template_str (locale_tag err))
                     | None \<Rightarrow> tr (''DEFAULT_ERRORS.'' @ template_str (locale_tag err))),
                  env_error_code = api_code err,
                  env_errors = errors err\<rparr>]"
  using assms by (simp add: error_handler_def js_or_def split: option.splits)

theorem handled_error_envelope_witness:
  "error_handler (\<lambda>e. err_name e = ''HandledError'') (\<lambda>e. err_name e = ''MongooseError'') (\<lambda>k. k)
     \<lparr>err_name = ''HandledError'', message = None, api_status = 400,
      api_code = ''validation_error'', locale_tag = Some ''VALIDATION_ERROR'',
      errors = Some [\<lparr>param = ''email'', msg = ''taken''\<rparr>]\<rparr> =
   [Status 400,
    Send \<lparr>env_error = ''DEFAULT_ERRORS.VALIDATION_ERROR'',
          env_error_code = ''validation_error'',
          env_errors = Some [\<lparr>param = ''email'', msg = ''taken''\<rparr>]\<rparr>]"
  using handled_error_envelope
    [of "\<lambda>e. err_name e = ''HandledError''"
        "\<lparr>err_name = ''HandledError'', message = None, api_status = 400,
          api_code = ''validation_error'', locale_tag = Some ''VALIDATION_ERROR'',
          errors = Some [\<lparr>param = ''email'', msg = ''taken''\<rparr>]\<rparr>"
        "\<lambda>e. err_name e = ''MongooseError''" "\<lambda>k. k"]
  by (simp add: template_str_def)

section \<open>Properties of the registration workflow\<close>

lemma find_email_None:
  "em \<notin> set (map acc_email (accounts st)) \<Longrightarrow> find (\<lambda>a. acc_email a = em) (accounts st) = None"
  by (auto simp: find_None_iff)

lemma find_email_Some:
  "em \<in> set (map acc_email (accounts st)) \<Longrightarrow> \<exists>a. find (\<lambda>a. acc_email a = em) (accounts st) = Some a"
  by (cases "find (\<lambda>a. acc_email a = em) (accounts st)") (auto simp: find_None_iff)

text \<open>Whatever happens, the controller starts with a call to the data layer.\<close>

lemma controller_calls_data_layer:
  "oplog (snd (accountsReg_controller tr initPasswordHash fault params st)) \<noteq> oplog st"
  by (auto simp add: accountsReg_controller_def accounts_findOne_def accounts_create_def
      profile_create_def Let_def split: prod.splits option.splits sum.splits if_splits)

text \<open>
  C1. When no stored account has the email of the payload and the store answers the three
  calls, the controller answers with the pair (account, profile). The store has gained
  exactly that account and exactly that profile; the account carries the email and the pair
  (hash, salt) that \<^verbatim>\<open>initPasswordHash\<close> returned for the password; the profile refers to
  the identifier of the new account and carries the names and the phone; and the data layer
  was called three times: one lookup, one account creation, one profile creation. The
  statement holds for every payload, a valid one in particular.
\<close>

theorem registration_creates_account_and_profile:
  assumes "email params \<notin> set (map acc_email (accounts st))"
    and "fault (length (oplog st)) = None"
    and "fault (Suc (length (oplog st))) = None"
    and "fault (Suc (Suc (length (oplog st)))) = None"
  shows "\<exists>account profile st'.
           accountsReg_controller tr initPasswordHash fault params st = (Inr (account, profile), st') \<and>
           accounts st' = accounts st @ [account] \<and>
           profiles st' = profiles st @ [profile] \<and>
           account_id profile = acc_id account \<and>
           acc_email account = email params \<and>
           (acc_hash account, acc_salt account) = initPasswordHash (password params) \<and>
           prof_first_name profile = first_name params \<and>
           prof_last_name profile = last_name params \<and>
           prof_phone profile = contact_phone params \<and>
           oplog st' = oplog st @ [FindOneAccount (email params), CreateAccount (email params),
                                   CreateProfile (acc_id account)]"
  using assms
  by (simp add: accountsReg_controller_def accounts_findOne_def accounts_create_def
      profile_create_def find_email_None Let_def split: prod.splits)

theorem registration_creates_account_and_profile_witness:
  "accountsReg_controller (\<lambda>k. k) (\<lambda>p. (js ''H'', js ''S'')) (\<lambda>n. None)
      \<lparr>first_name = Some (js ''Ana''), last_name = None, contact_phone = Some (js ''5551234''),
       email = Some (js ''ana@example.com''), password = Some (js ''secret1''), cnf_password = Some (js ''secret1'')\<rparr>
      \<lparr>accounts = [], profiles = [], next_id = 0, oplog = []\<rparr> =
   (Inr (\<lparr>acc_id = 0, acc_email = Some (js ''ana@example.com''), acc_hash = js ''H'', acc_salt = js ''S''\<rparr>,
         \<lparr>account_id = 0, prof_first_name = Some (js ''Ana''), prof_last_name = None,
          prof_phone = Some (js ''5551234'')\<rparr>),
    \<lparr>accounts = [\<lparr>acc_id = 0, acc_email = Some (js ''ana@example.com''), acc_hash = js ''H'', acc_salt = js ''S''\<rparr>],
     profiles = [\<lparr>account_id = 0, prof_first_name = Some (js ''Ana''), prof_last_name = None,
                  prof_phone = Some (js ''5551234'')\<rparr>],
     next_id = 1,
     oplog = [FindOneAccount (Some (js ''ana@example.com'')), CreateAccount (Some (js ''ana@example.com'')),
              CreateProfile 0]\<rparr>)"
  using registration_creates_account_and_profile
    [where params = "\<lparr>first_name = Some (js ''Ana''), last_name = None, contact_phone = Some (js ''5551234''),
       email = Some (js ''ana@example.com''), password = Some (js ''secret1''), cnf_password = Some (js ''secret1'')\<rparr>"
       and st = "\<lparr>accounts = [], profiles = [], next_id = 0, oplog = []\<rparr>"
       and fault = "\<lambda>n. None" and tr = "\<lambda>k. k" and initPasswordHash = "\<lambda>p. (js ''H'', js ''S'')"]
  by (simp add: accountsReg_controller_def accounts_findOne_def accounts_create_def
      profile_create_def Let_def)

text \<open>
  C2. When a stored account has the email of the payload and the lookup is answered, the
  controller fails with \<^verbatim>\<open>Error.ValidationError\<close> of the single entry on the field
  \<^verbatim>\<open>email\<close> with the localized message, and the store is what it was but for the log
  entry of the lookup: no account, no profile, no creation call.
\<close>

theorem duplicate_email_rejected_without_writes:
  assumes "email params \<in> set (map acc_email (accounts st))"
    and "fault (length (oplog st)) = None"
  shows "accountsReg_controller tr initPasswordHash fault params st =
           (Inl (ValidationError
                  [\<lparr>param = ''email'', msg = tr ''VAL_ERRORS.USR_ACC_NEW_EMAIL_EXISTS''\<rparr>]),
            st\<lparr>oplog := oplog st @ [FindOneAccount (email params)]\<rparr>)"
proof -
  from assms(1) obtain a where "find (\<lambda>a. acc_email a = email params) (accounts st) = Some a"
    using find_email_Some by blast
  with assms(2) show ?thesis
    by (simp add: accountsReg_controller_def accounts_findOne_def)
qed

theorem duplicate_email_rejected_without_writes_witness:
  "accountsReg_controller (\<lambda>k. k) (\<lambda>p. (js ''H2'', js ''S2'')) (\<lambda>n. None)
      \<lparr>first_name = Some (js ''Ana''), last_name = None, contact_phone = Some (js ''5551234''),
       email = Some (js ''ana@example.com''), password = Some (js ''other''), cnf_password = Some (js ''other'')\<rparr>
      \<lparr>accounts = [\<lparr>acc_id = 0, acc_email = Some (js ''ana@example.com''), acc_hash = js ''H'', acc_salt = js ''S''\<rparr>],
       profiles = [\<lparr>account_id = 0, prof_first_name = Some (js ''Ana''), prof_last_name = None,
                    prof_phone = Some (js ''5551234'')\<rparr>],
       next_id = 1, oplog = []\<rparr> =
   (Inl (ValidationError [\<lparr>param = ''email'', msg = ''VAL_ERRORS.USR_ACC_NEW_EMAIL_EXISTS''\<rparr>]),
    \<lparr>accounts = [\<lparr>acc_id = 0, acc_email = Some (js ''ana@example.com''), acc_hash = js ''H'', acc_salt = js ''S''\<rparr>],
     profiles = [\<lparr>account_id = 0, prof_first_name = Some (js ''Ana''), prof_last_name = None,
                  prof_phone = Some (js ''5551234'')\<rparr>],
     next_id = 1, oplog = [FindOneAccount (Some (js ''ana@example.com''))]\<rparr>)"
  using duplicate_email_rejected_without_writes
    [where params = "\<lparr>first_name = Some (js ''Ana''), last_name = None, contact_phone = Some (js ''5551234''),
       email = Some (js ''ana@example.com''), password = Some (js ''other''), cnf_password = Some (js ''other'')\<rparr>"
       and st = "\<lparr>accounts = [\<lparr>acc_id = 0, acc_email = Some (js ''ana@example.com''), acc_hash = js ''H'', acc_salt = js ''S''\<rparr>],
         profiles = [\<lparr>account_id = 0, prof_first_name = Some (js ''Ana''), prof_last_name = None,
                      prof_phone = Some (js ''5551234'')\<rparr>],
         next_id = 1, oplog = []\<rparr>"
       and fault = "\<lambda>n. None" and tr = "\<lambda>k. k" and initPasswordHash = "\<lambda>p. (js ''H2'', js ''S2'')"]
  by simp

text \<open>
  C9. When the lookup and the account creation are answered and the profile creation is
  rejected with \<open>e\<close>, the controller passes on exactly \<open>e\<close>. The new account stays in the
  store, the profiles are what they were, and the log shows one lookup, one account
  creation and one profile creation: no deletion, no second attempt.
\<close>

theorem profile_failure_leaves_account:
  assumes "email params \<notin> set (map acc_email (accounts st))"
    and "fault (length (oplog st)) = None"
    and "fault (Suc (length (oplog st))) = None"
    and "fault (Suc (Suc (length (oplog st)))) = Some e"
  shows "\<exists>account st'.
           accountsReg_controller tr initPasswordHash fault params st = (Inl (DbError e), st') \<and>
           accounts st' = accounts st @ [account] \<and>
           acc_email account = email params \<and>
           (acc_hash account, acc_salt account) = initPasswordHash (password params) \<and>
           profiles st' = profiles st \<and>
           oplog st' = oplog st @ [FindOneAccount (email params), CreateAccount (email params),
                                   CreateProfile (acc_id account)]"
  using assms
  by (simp add: accountsReg_controller_def accounts_findOne_def accounts_create_def
      profile_create_def find_email_None Let_def split: prod.splits)

theorem profile_failure_leaves_account_witness:
  "accountsReg_controller (\<lambda>k. k) (\<lambda>p. (js ''H'', js ''S''))
      (\<lambda>n. if n = 2 then Some ''connection lost'' else None)
      \<lparr>first_name = Some (js ''Ana''), last_name = None, contact_phone = Some (js ''5551234''),
       email = Some (js ''ana@example.com''), password = Some (js ''secret1''), cnf_password = Some (js ''secret1'')\<rparr>
      \<lparr>accounts = [], profiles = [], next_id = 0, oplog = []\<rparr> =
   (Inl (DbError ''connection lost''),
    \<lparr>accounts = [\<lparr>acc_id = 0, acc_email = Some (js ''ana@example.com''), acc_hash = js ''H'', acc_salt = js ''S''\<rparr>],
     profiles = [],
     next_id = 1,
     oplog = [FindOneAccount (Some (js ''ana@example.com'')), CreateAccount (Some (js ''ana@example.com'')),
              CreateProfile 0]\<rparr>)"
  using profile_failure_leaves_account
    [where params = "\<lparr>first_name = Some (js ''Ana''), last_name = None, contact_phone = Some (js ''5551234''),
       email = Some (js ''ana@example.com''), password = Some (js ''secret1''), cnf_password = Some (js ''secret1'')\<rparr>"
       and st = "\<lparr>accounts = [], profiles = [], next_id = 0, oplog = []\<rparr>"
       and fault = "\<lambda>n. if n = 2 then Some ''connection lost'' else None"
       and e = "''connection lost''" and tr = "\<lambda>k. k" and initPasswordHash = "\<lambda>p. (js ''H'', js ''S'')"]
  by (simp add: accountsReg_controller_def accounts_findOne_def accounts_create_def
      profile_create_def Let_def)

section \<open>Properties of the input validation\<close>

lemma trim_Nil: "trim [] = []"
  by (simp add: trim_def ltrim_def rtrim_def)

lemma dropWhile_all: "list_all P xs \<Longrightarrow> dropWhile P (xs @ ys) = dropWhile P ys"
  by (induction xs) simp_all

lemma dropWhile_hd: "xs \<noteq> [] \<Longrightarrow> \<not> P (hd xs) \<Longrightarrow> dropWhile P xs = xs"
  by (cases xs) simp_all

lemma trim_strips_white_space:
  assumes "list_all is_space l" and "list_all is_space r"
    and "m = [] \<or> (\<not> is_space (hd m) \<and> \<not> is_space (last m))"
  shows "trim (l @ m @ r) = m"
proof (cases "m = []")
  case True
  have "dropWhile is_space (l @ r) = dropWhile is_space (r @ [])"
    using assms(1) by (simp only: dropWhile_all append_Nil2)
  also have "\<dots> = dropWhile is_space []"
    using assms(2) by (rule dropWhile_all)
  finally have "ltrim (l @ r) = []"
    by (simp only: ltrim_def dropWhile.simps)
  then have "trim (l @ r) = []"
    by (simp only: trim_def rtrim_def rev.simps dropWhile.simps)
  with True show ?thesis
    by simp
next
  case False
  with assms(3) have hd: "\<not> is_space (hd m)" and lst: "\<not> is_space (last m)"
    by auto
  have "ltrim (l @ m @ r) = m @ r"
    using assms(1) False hd by (simp add: ltrim_def dropWhile_all dropWhile_hd)
  moreover have "rtrim (m @ r) = m"
  proof -
    have "list_all is_space (rev r)"
      using assms(2) by (simp add: list_all_iff)
    then have "dropWhile is_space (rev r @ rev m) = dropWhile is_space (rev m)"
      by (rule dropWhile_all)
    also have "\<dots> = rev m"
      using False lst by (simp add: dropWhile_hd hd_rev)
    finally show ?thesis
      by (simp add: rtrim_def)
  qed
  ultimately show ?thesis
    by (simp add: trim_def)
qed

text \<open>The schema, one field at a time.\<close>

lemma cnf_password_custom_iff:
  "cnf_password_custom b v \<longleftrightarrow> (password b = v \<and> toString (password b) \<noteq> [])"
  by (cases "password b") (auto simp add: cnf_password_custom_def toString_def)

lemma checkSchema_Cons:
  "checkSchema (c # cs) body =
     (fst (checkSchema cs (fst (c body))), snd (c body) @ snd (checkSchema cs (fst (c body))))"
  by (simp split: prod.splits)

lemma run_chain_body:
  "fst (run_chain tr name sel upd rules body) = upd (map_option trim (sel body)) body"
  by (simp add: run_chain_def Let_def)

lemma run_chain_no_rule:
  "snd (run_chain tr name sel upd [] body) = []"
  by (simp add: run_chain_def Let_def)

lemma run_chain_one_rule:
  "snd (run_chain tr name sel upd [(c, n, k)] body) =
     (if rule_fails (c, n, k) (upd (map_option trim (sel body)) body) (map_option trim (sel body))
      then [\<lparr>param = name, msg = tr k\<rparr>] else [])"
  by (simp add: run_chain_def Let_def)

lemma run_chain_two_rules:
  "snd (run_chain tr name sel upd [(c, n, k), (c', n', k')] body) =
     (if rule_fails (c, n, k) (upd (map_option trim (sel body)) body) (map_option trim (sel body))
      then [\<lparr>param = name, msg = tr k\<rparr>] else []) @
     (if rule_fails (c', n', k') (upd (map_option trim (sel body)) body) (map_option trim (sel body))
      then [\<lparr>param = name, msg = tr k'\<rparr>] else [])"
  by (simp add: run_chain_def Let_def)

lemma rule_fails_isEmpty:
  "rule_fails (isEmpty, True, k) b v \<longleftrightarrow> toString v = []"
  by (simp add: rule_fails_def isEmpty_def)

lemma rule_fails_standard:
  "rule_fails (standard p, False, k) b v \<longleftrightarrow> \<not> p (toString v)"
  by (simp add: rule_fails_def standard_def)

lemma rule_fails_custom:
  "rule_fails (cnf_password_custom, False, k) b v \<longleftrightarrow>
     \<not> (password b = v \<and> toString (password b) \<noteq> [])"
  by (simp add: rule_fails_def cnf_password_custom_iff)

text \<open>The body that leaves the schema is the body that entered it, every field trimmed.\<close>

lemma checkSchema_body:
  "fst (checkSchema (accountsReg_schema isInt isEmail tr) body) =
     \<lparr>first_name = map_option trim (first_name body),
      last_name = map_option trim (last_name body),
      contact_phone = map_option trim (contact_phone body),
      email = map_option trim (email body),
      password = map_option trim (password body),
      cnf_password = map_option trim (cnf_password body)\<rparr>"
  by (simp add: accountsReg_schema_def checkSchema_Cons run_chain_body del: checkSchema.simps(2))

text \<open>
  The list the schema collects, entry by entry: each rule on the trimmed value of its
  field, the comparison of the custom validator on the two trimmed values.
\<close>

lemma checkSchema_errors:
  "snd (checkSchema (accountsReg_schema isInt isEmail tr) body) =
     (if toString (map_option trim (first_name body)) = []
      then [\<lparr>param = ''first_name'', msg = tr ''VAL_ERRORS.USR_ACC_NEW_MISSING_F_NAME''\<rparr>] else []) @
     (if toString (map_option trim (contact_phone body)) = []
      then [\<lparr>param = ''contact_phone'', msg = tr ''VAL_ERRORS.USR_ACC_NEW_MISSING_PHONE''\<rparr>] else []) @
     (if \<not> isInt (toString (map_option trim (contact_phone body)))
      then [\<lparr>param = ''contact_phone'', msg = tr ''VAL_ERRORS.USR_ACC_NEW_INVALID_PHONE''\<rparr>] else []) @
     (if toString (map_option trim (email body)) = []
      then [\<lparr>param = ''email'', msg = tr ''VAL_ERRORS.USR_ACC_NEW_MISSING_EMAIL''\<rparr>] else []) @
     (if \<not> isEmail (toString (map_option trim (email body)))
      then [\<lparr>param = ''email'', msg = tr ''VAL_ERRORS.USR_ACC_NEW_INVALID_EMAIL''\<rparr>] else []) @
     (if toString (map_option trim (password body)) = []
      then [\<lparr>param = ''password'', msg = tr ''VAL_ERRORS.USR_ACC_NEW_MISSING_PWD''\<rparr>] else []) @
     (if toString (map_option trim (cnf_password body)) = []
      then [\<lparr>param = ''cnf_password'', msg = tr ''VAL_ERRORS.USR_ACC_NEW_MISSING_CNF_PWD''\<rparr>] else []) @
     (if \<not> (map_option trim (password body) = map_option trim (cnf_password body) \<and>
             toString (map_option trim (password body)) \<noteq> [])
      then [\<lparr>param = ''cnf_password'', msg = tr ''VAL_ERRORS.USR_ACC_NEW_CNF_PWD_MISMATCH''\<rparr>] else [])"
  by (simp add: accountsReg_schema_def checkSchema_Cons run_chain_body run_chain_no_rule
      run_chain_one_rule run_chain_two_rules rule_fails_isEmpty rule_fails_standard
      rule_fails_custom del: checkSchema.simps(2) split del: if_split)

text \<open>A failing custom validator leaves its entry in the list the schema collects.\<close>

lemma checkSchema_mismatch_entry:
  assumes "\<not> cnf_password_custom (fst (checkSchema (accountsReg_schema isInt isEmail tr) body))
              (map_option trim (cnf_password body))"
  shows "\<lparr>param = ''cnf_password'', msg = tr ''VAL_ERRORS.USR_ACC_NEW_CNF_PWD_MISMATCH''\<rparr>
           \<in> set (snd (checkSchema (accountsReg_schema isInt isEmail tr) body))"
  using assms
  by (simp add: checkSchema_errors checkSchema_body cnf_password_custom_iff)

text \<open>
  The custom validator compares the trimmed password, already written back to the body by
  the password field, with the trimmed confirmation.
\<close>

lemma custom_passes_iff:
  "cnf_password_custom (fst (checkSchema (accountsReg_schema isInt isEmail tr) body))
      (map_option trim (cnf_password body)) \<longleftrightarrow>
   (map_option trim (password body) = map_option trim (cnf_password body) \<and>
    (\<exists>p. password body = Some p \<and> trim p \<noteq> []))"
  by (cases "password body") (auto simp add: checkSchema_body cnf_password_custom_def)

text \<open>
  C10. When the password is missing or the empty string, the schema reports the
  confirmation mismatch on \<^verbatim>\<open>cnf_password\<close>, whatever the confirmation is. With both
  fields empty the list holds the two missing-field entries and the mismatch entry.
\<close>

theorem empty_password_fails_confirmation_check:
  assumes "password body = None \<or> password body = Some []"
  shows "\<lparr>param = ''cnf_password'', msg = tr ''VAL_ERRORS.USR_ACC_NEW_CNF_PWD_MISMATCH''\<rparr>
           \<in> set (snd (checkSchema (accountsReg_schema isInt isEmail tr) body))"
proof (rule checkSchema_mismatch_entry)
  from assms
  show "\<not> cnf_password_custom (fst (checkSchema (accountsReg_schema isInt isEmail tr) body))
            (map_option trim (cnf_password body))"
    by (auto simp add: custom_passes_iff trim_Nil)
qed

theorem empty_password_fails_confirmation_check_witness:
  "checkSchema (accountsReg_schema sample_isInt sample_isEmail (\<lambda>k. k))
      \<lparr>first_name = Some (js ''Ana''), last_name = None, contact_phone = Some (js ''5551234''),
       email = Some (js ''ana@example.com''), password = Some [], cnf_password = Some []\<rparr> =
   (\<lparr>first_name = Some (js ''Ana''), last_name = None, contact_phone = Some (js ''5551234''),
     email = Some (js ''ana@example.com''), password = Some [], cnf_password = Some []\<rparr>,
    [\<lparr>param = ''password'', msg = ''VAL_ERRORS.USR_ACC_NEW_MISSING_PWD''\<rparr>,
     \<lparr>param = ''cnf_password'', msg = ''VAL_ERRORS.USR_ACC_NEW_MISSING_CNF_PWD''\<rparr>,
     \<lparr>param = ''cnf_password'', msg = ''VAL_ERRORS.USR_ACC_NEW_CNF_PWD_MISMATCH''\<rparr>])"
  using empty_password_fails_confirmation_check
    [where body = "\<lparr>first_name = Some (js ''Ana''), last_name = None, contact_phone = Some (js ''5551234''),
          email = Some (js ''ana@example.com''), password = Some [], cnf_password = Some []\<rparr>"
       and tr = "\<lambda>k. k" and isInt = sample_isInt and isEmail = sample_isEmail]
  by (simp add: accountsReg_schema_def run_chain_def Let_def rule_fails_def isEmpty_def standard_def
      cnf_password_custom_def toString_def trim_def ltrim_def rtrim_def is_space_def
      sample_isInt_def sample_isEmail_def js_def)

text \<open>
  C3, as the code has it. Both fields are trimmed before they are compared, so the
  comparison is between the trimmed values. When the trimmed password is missing or empty,
  or differs from the trimmed confirmation, the route stops at the interceptor with the
  validation error that holds the list the schema collected, the mismatch entry on
  \<^verbatim>\<open>cnf_password\<close> among its entries; the store is untouched, and a run of the
  controller would have left a call in the log of the data layer. When the trimmed values
  are equal and not empty, the schema has no entry on \<^verbatim>\<open>cnf_password\<close>; so it is
  for a password and a confirmation that are the same text between any white space of the
  class that \<^verbatim>\<open>trim\<close> removes.
\<close>

theorem mismatch_after_trim_stops_pipeline:
  "((toString (map_option trim (password body)) = [] \<or>
     map_option trim (password body) \<noteq> map_option trim (cnf_password body)) \<longrightarrow>
    (\<exists>errs.
       accountsReg isInt isEmail tr initPasswordHash fault body st = (Inl (ValidationError errs), st) \<and>
       errs = snd (checkSchema (accountsReg_schema isInt isEmail tr) body) \<and>
       \<lparr>param = ''cnf_password'', msg = tr ''VAL_ERRORS.USR_ACC_NEW_CNF_PWD_MISMATCH''\<rparr> \<in> set errs \<and>
       snd (accountsReg_controller tr initPasswordHash fault
              (fst (checkSchema (accountsReg_schema isInt isEmail tr) body)) st) \<noteq> st)) \<and>
   ((toString (map_option trim (password body)) \<noteq> [] \<and>
     map_option trim (password body) = map_option trim (cnf_password body)) \<longrightarrow>
    ''cnf_password'' \<notin> set (map param (snd (checkSchema (accountsReg_schema isInt isEmail tr) body)))) \<and>
   (\<forall>l r l' r' p.
      list_all is_space l \<and> list_all is_space r \<and> list_all is_space l' \<and> list_all is_space r' \<and>
      p \<noteq> [] \<and> \<not> is_space (hd p) \<and> \<not> is_space (last p) \<and>
      password body = Some (l @ p @ r) \<and> cnf_password body = Some (l' @ p @ r') \<longrightarrow>
      ''cnf_password'' \<notin> set (map param (snd (checkSchema (accountsReg_schema isInt isEmail tr) body))))"
proof -
  let ?errs = "snd (checkSchema (accountsReg_schema isInt isEmail tr) body)"
  let ?entry = "\<lparr>param = ''cnf_password'', msg = tr ''VAL_ERRORS.USR_ACC_NEW_CNF_PWD_MISMATCH''\<rparr>"
  let ?differ = "toString (map_option trim (password body)) = [] \<or>
                 map_option trim (password body) \<noteq> map_option trim (cnf_password body)"
  have stops: "\<exists>errs.
       accountsReg isInt isEmail tr initPasswordHash fault body st = (Inl (ValidationError errs), st) \<and>
       errs = ?errs \<and> ?entry \<in> set errs \<and>
       snd (accountsReg_controller tr initPasswordHash fault
              (fst (checkSchema (accountsReg_schema isInt isEmail tr) body)) st) \<noteq> st"
    if d: ?differ
  proof -
    from d have mem: "?entry \<in> set ?errs"
      by (auto simp add: checkSchema_errors)
    then have "?errs \<noteq> []"
      by auto
    then have stop: "accountsReg isInt isEmail tr initPasswordHash fault body st =
                       (Inl (ValidationError ?errs), st)"
      by (auto simp add: accountsReg_def InputValidator_def split: prod.splits)
    have "snd (accountsReg_controller tr initPasswordHash fault
                 (fst (checkSchema (accountsReg_schema isInt isEmail tr) body)) st) \<noteq> st"
      using controller_calls_data_layer
        [of tr initPasswordHash fault "fst (checkSchema (accountsReg_schema isInt isEmail tr) body)" st]
      by auto
    with mem stop show ?thesis
      by blast
  qed
  have passes: "''cnf_password'' \<notin> set (map param ?errs)"
    if e: "toString (map_option trim (password body)) \<noteq> [] \<and>
           map_option trim (password body) = map_option trim (cnf_password body)"
  proof -
    from e have "toString (map_option trim (cnf_password body)) \<noteq> []"
      by metis
    with e show ?thesis
      by (auto simp add: checkSchema_errors)
  qed
  have padded: "''cnf_password'' \<notin> set (map param ?errs)"
    if h: "list_all is_space l \<and> list_all is_space r \<and> list_all is_space l' \<and> list_all is_space r' \<and>
           p \<noteq> [] \<and> \<not> is_space (hd p) \<and> \<not> is_space (last p) \<and>
           password body = Some (l @ p @ r) \<and> cnf_password body = Some (l' @ p @ r')"
    for l r l' r' p
  proof -
    from h have "trim (l @ p @ r) = p" and "trim (l' @ p @ r') = p"
      by (simp_all add: trim_strips_white_space)
    with h have "toString (map_option trim (password body)) \<noteq> [] \<and>
                 map_option trim (password body) = map_option trim (cnf_password body)"
      by (simp add: toString_def)
    then show ?thesis
      by (rule passes)
  qed
  from stops passes padded show ?thesis
    by blast
qed

theorem mismatch_after_trim_stops_pipeline_witness:
  "accountsReg sample_isInt sample_isEmail (\<lambda>k. k) (\<lambda>p. (js ''H'', js ''S'')) (\<lambda>n. None)
      \<lparr>first_name = Some (js ''Ana''), last_name = None, contact_phone = Some (js ''5551234''),
       email = Some (js ''ana@example.com''), password = Some (js '' ''), cnf_password = Some []\<rparr>
      \<lparr>accounts = [], profiles = [], next_id = 0, oplog = []\<rparr> =
   (Inl (ValidationError
          [\<lparr>param = ''password'', msg = ''VAL_ERRORS.USR_ACC_NEW_MISSING_PWD''\<rparr>,
           \<lparr>param = ''cnf_password'', msg = ''VAL_ERRORS.USR_ACC_NEW_MISSING_CNF_PWD''\<rparr>,
           \<lparr>param = ''cnf_password'', msg = ''VAL_ERRORS.USR_ACC_NEW_CNF_PWD_MISMATCH''\<rparr>]),
    \<lparr>accounts = [], profiles = [], next_id = 0, oplog = []\<rparr>) \<and>
   accountsReg sample_isInt sample_isEmail (\<lambda>k. k) (\<lambda>p. (js ''H'', js ''S'')) (\<lambda>n. None)
      \<lparr>first_name = Some (js ''Ana''), last_name = None, contact_phone = Some (js ''5551234''),
       email = Some (js ''ana@example.com''), password = Some (js ''secret1''),
       cnf_password = Some (js ''secret2'')\<rparr>
      \<lparr>accounts = [], profiles = [], next_id = 0, oplog = []\<rparr> =
   (Inl (ValidationError
          [\<lparr>param = ''cnf_password'', msg = ''VAL_ERRORS.USR_ACC_NEW_CNF_PWD_MISMATCH''\<rparr>]),
    \<lparr>accounts = [], profiles = [], next_id = 0, oplog = []\<rparr>) \<and>
   ''cnf_password'' \<notin> set (map param
     (snd (checkSchema (accountsReg_schema sample_isInt sample_isEmail (\<lambda>k. k))
        \<lparr>first_name = Some (js ''Ana''), last_name = None, contact_phone = Some (js ''5551234''),
         email = Some (js ''ana@example.com''), password = Some (js ''secret1''),
         cnf_password = Some ([0xFEFF] @ js ''secret1'' @ [0x00A0, 0x2028])\<rparr>)))"
proof -
  let ?schema = "accountsReg_schema sample_isInt sample_isEmail (\<lambda>k. k)"
  let ?st = "\<lparr>accounts = [], profiles = [], next_id = 0, oplog = []\<rparr>"
  let ?a = "\<lparr>first_name = Some (js ''Ana''), last_name = None, contact_phone = Some (js ''5551234''),
       email = Some (js ''ana@example.com''), password = Some (js '' ''), cnf_password = Some []\<rparr>"
  let ?b = "\<lparr>first_name = Some (js ''Ana''), last_name = None, contact_phone = Some (js ''5551234''),
       email = Some (js ''ana@example.com''), password = Some (js ''secret1''),
       cnf_password = Some (js ''secret2'')\<rparr>"
  let ?c = "\<lparr>first_name = Some (js ''Ana''), last_name = None, contact_phone = Some (js ''5551234''),
         email = Some (js ''ana@example.com''), password = Some (js ''secret1''),
         cnf_password = Some ([0xFEFF] @ js ''secret1'' @ [0x00A0, 0x2028])\<rparr>"
  have t_ana: "trim (js ''Ana'') = js ''Ana''"
    and t_phone: "trim (js ''5551234'') = js ''5551234''"
    and t_mail: "trim (js ''ana@example.com'') = js ''ana@example.com''"
    and t_s1: "trim (js ''secret1'') = js ''secret1''"
    and t_s2: "trim (js ''secret2'') = js ''secret2''"
    and t_sp: "trim (js '' '') = []"
    by (simp_all add: trim_def ltrim_def rtrim_def is_space_def js_def)
  have ok: "sample_isInt (js ''5551234'')" "sample_isEmail (js ''ana@example.com'')"
    by (simp_all add: sample_isInt_def sample_isEmail_def js_def)
  have ne: "js ''Ana'' \<noteq> []" "js ''5551234'' \<noteq> []" "js ''ana@example.com'' \<noteq> []"
    "js ''secret1'' \<noteq> []" "js ''secret2'' \<noteq> []" "js ''secret1'' \<noteq> js ''secret2''"
    by (simp_all add: js_def)
  have hyp_a: "toString (map_option trim (password ?a)) = [] \<or>
               map_option trim (password ?a) \<noteq> map_option trim (cnf_password ?a)"
    by (simp add: t_sp toString_def)
  have hyp_b: "toString (map_option trim (password ?b)) = [] \<or>
               map_option trim (password ?b) \<noteq> map_option trim (cnf_password ?b)"
    by (simp add: t_s1 t_s2 ne)
  have errs_a: "snd (checkSchema ?schema ?a) =
          [\<lparr>param = ''password'', msg = ''VAL_ERRORS.USR_ACC_NEW_MISSING_PWD''\<rparr>,
           \<lparr>param = ''cnf_password'', msg = ''VAL_ERRORS.USR_ACC_NEW_MISSING_CNF_PWD''\<rparr>,
           \<lparr>param = ''cnf_password'', msg = ''VAL_ERRORS.USR_ACC_NEW_CNF_PWD_MISMATCH''\<rparr>]"
    by (simp add: checkSchema_errors toString_def t_ana t_phone t_mail t_sp trim_Nil ok ne)
  have errs_b: "snd (checkSchema ?schema ?b) =
          [\<lparr>param = ''cnf_password'', msg = ''VAL_ERRORS.USR_ACC_NEW_CNF_PWD_MISMATCH''\<rparr>]"
    by (simp add: checkSchema_errors toString_def t_ana t_phone t_mail t_s1 t_s2 ok ne)
  have run_a: "accountsReg sample_isInt sample_isEmail (\<lambda>k. k) (\<lambda>p. (js ''H'', js ''S'')) (\<lambda>n. None) ?a ?st =
                 (Inl (ValidationError (snd (checkSchema ?schema ?a))), ?st)"
    using mismatch_after_trim_stops_pipeline
      [where body = ?a and st = ?st and tr = "\<lambda>k. k" and isInt = sample_isInt
         and isEmail = sample_isEmail and initPasswordHash = "\<lambda>p. (js ''H'', js ''S'')"
         and fault = "\<lambda>n. None", THEN conjunct1, THEN mp, OF hyp_a]
    by (elim exE conjE) (simp only:)
  have run_b: "accountsReg sample_isInt sample_isEmail (\<lambda>k. k) (\<lambda>p. (js ''H'', js ''S'')) (\<lambda>n. None) ?b ?st =
                 (Inl (ValidationError (snd (checkSchema ?schema ?b))), ?st)"
    using mismatch_after_trim_stops_pipeline
      [where body = ?b and st = ?st and tr = "\<lambda>k. k" and isInt = sample_isInt
         and isEmail = sample_isEmail and initPasswordHash = "\<lambda>p. (js ''H'', js ''S'')"
         and fault = "\<lambda>n. None", THEN conjunct1, THEN mp, OF hyp_b]
    by (elim exE conjE) (simp only:)
  have sp: "list_all is_space []" "list_all is_space [0xFEFF]" "list_all is_space [0x00A0, 0x2028]"
    by (simp_all add: is_space_def)
  have core: "\<not> is_space (hd (js ''secret1''))" "\<not> is_space (last (js ''secret1''))"
    by (simp_all add: is_space_def js_def)
  have hyp_c: "list_all is_space [] \<and> list_all is_space [] \<and> list_all is_space [0xFEFF] \<and>
               list_all is_space [0x00A0, 0x2028] \<and>
               js ''secret1'' \<noteq> [] \<and> \<not> is_space (hd (js ''secret1'')) \<and>
               \<not> is_space (last (js ''secret1'')) \<and>
               password ?c = Some ([] @ js ''secret1'' @ []) \<and>
               cnf_password ?c = Some ([0xFEFF] @ js ''secret1'' @ [0x00A0, 0x2028])"
    using sp core ne by simp
  have pass_c: "''cnf_password'' \<notin> set (map param (snd (checkSchema ?schema ?c)))"
    using mismatch_after_trim_stops_pipeline
      [where body = ?c and tr = "\<lambda>k. k" and isInt = sample_isInt and isEmail = sample_isEmail,
         THEN conjunct2, THEN conjunct2, THEN spec, THEN spec, THEN spec, THEN spec, THEN spec,
         THEN mp, OF hyp_c] .
  from run_a run_b pass_c show ?thesis
    unfolding errs_a errs_b by (intro conjI)
qed

text \<open>
  C3, as it is written, fails: a payload whose confirmation is the password followed by a
  space has two different fields, yet the schema finds nothing, the controller runs and the
  account and the profile are created.
\<close>

theorem trimmed_match_counterexample:
  "password \<lparr>first_name = Some (js ''Ana''), last_name = None, contact_phone = Some (js ''5551234''),
       email = Some (js ''ana@example.com''), password = Some (js ''secret1''),
       cnf_password = Some (js ''secret1 '')\<rparr>
   \<noteq> cnf_password \<lparr>first_name = Some (js ''Ana''), last_name = None, contact_phone = Some (js ''5551234''),
       email = Some (js ''ana@example.com''), password = Some (js ''secret1''),
       cnf_password = Some (js ''secret1 '')\<rparr>
   \<and>
   snd (checkSchema (accountsReg_schema sample_isInt sample_isEmail (\<lambda>k. k))
      \<lparr>first_name = Some (js ''Ana''), last_name = None, contact_phone = Some (js ''5551234''),
       email = Some (js ''ana@example.com''), password = Some (js ''secret1''),
       cnf_password = Some (js ''secret1 '')\<rparr>) = []
   \<and>
   accountsReg sample_isInt sample_isEmail (\<lambda>k. k) (\<lambda>p. (js ''H'', js ''S'')) (\<lambda>n. None)
      \<lparr>first_name = Some (js ''Ana''), last_name = None, contact_phone = Some (js ''5551234''),
       email = Some (js ''ana@example.com''), password = Some (js ''secret1''),
       cnf_password = Some (js ''secret1 '')\<rparr>
      \<lparr>accounts = [], profiles = [], next_id = 0, oplog = []\<rparr> =
   (Inr (\<lparr>acc_id = 0, acc_email = Some (js ''ana@example.com''), acc_hash = js ''H'', acc_salt = js ''S''\<rparr>,
         \<lparr>account_id = 0, prof_first_name = Some (js ''Ana''), prof_last_name = None,
          prof_phone = Some (js ''5551234'')\<rparr>),
    \<lparr>accounts = [\<lparr>acc_id = 0, acc_email = Some (js ''ana@example.com''), acc_hash = js ''H'', acc_salt = js ''S''\<rparr>],
     profiles = [\<lparr>account_id = 0, prof_first_name = Some (js ''Ana''), prof_last_name = None,
                  prof_phone = Some (js ''5551234'')\<rparr>],
     next_id = 1,
     oplog = [FindOneAccount (Some (js ''ana@example.com'')), CreateAccount (Some (js ''ana@example.com'')),
              CreateProfile 0]\<rparr>)"
  by (simp add: accountsReg_def accountsReg_schema_def run_chain_def Let_def rule_fails_def
      isEmpty_def standard_def cnf_password_custom_def toString_def trim_def ltrim_def rtrim_def
      is_space_def sample_isInt_def sample_isEmail_def InputValidator_def js_def
      accountsReg_controller_def accounts_findOne_def accounts_create_def profile_create_def)

section \<open>Properties of the connection bootstrap\<close>

lemma dispatch_Crashed_run: "foldl (dispatch h) (Crashed l e) evs = Crashed l e"
  by (induction evs) simp_all

lemma run_reaches_error:
  "ConnError err \<in> set evs \<Longrightarrow>
     \<exists>l' e. foldl (dispatch connection_listener) (Serving l) evs = Crashed l' e"
proof (induction evs arbitrary: l)
  case Nil
  then show ?case by simp
next
  case (Cons ev evs)
  show ?case
  proof (cases ev)
    case (ConnError x)
    then show ?thesis by (simp add: dispatch_Crashed_run)
  next
    case Connected
    with Cons show ?thesis by auto
  next
    case Disconnected
    with Cons show ?thesis by auto
  next
    case Reconnect
    with Cons show ?thesis by auto
  qed
qed

lemma core_mongoose_Some: "core_mongoose uri = Some h \<Longrightarrow> h = connection_listener"
  by (auto simp: core_mongoose_def split: option.splits if_splits)

text \<open>
  C8. With a URI configured, the listener of the error event logs the error and throws it:
  the process ends with that error, it stays ended whatever the connection emits later,
  and every run of events with an error event among them ends the process.
\<close>

theorem connection_error_ends_process:
  assumes "core_mongoose uri = Some h"
  shows "dispatch h (Serving l) (ConnError err) =
           Crashed (l @ [LogError ''core.mongoose - connection - error - '' err]) err \<and>
         (\<forall>evs. foldl (dispatch h)
                  (Crashed (l @ [LogError ''core.mongoose - connection - error - '' err]) err) evs =
                Crashed (l @ [LogError ''core.mongoose - connection - error - '' err]) err) \<and>
         (\<forall>evs. ConnError err \<in> set evs \<longrightarrow>
                (\<exists>l' e. foldl (dispatch h) (Serving l) evs = Crashed l' e))"
  using core_mongoose_Some [OF assms] by (simp add: dispatch_Crashed_run run_reaches_error)

theorem connection_error_ends_process_witness:
  "core_mongoose (Some ''mongodb://localhost/app'') = Some connection_listener \<and>
   foldl (dispatch connection_listener) (Serving [])
     [Connected, ConnError ''ECONNRESET'', Reconnect] =
   Crashed [LogInfo ''core.mongoose - connection - connected'',
            LogError ''core.mongoose - connection - error - '' ''ECONNRESET''] ''ECONNRESET''"
proof -
  have cfg: "core_mongoose (Some ''mongodb://localhost/app'') = Some connection_listener"
    by (simp add: core_mongoose_def)
  from connection_error_ends_process
    [OF cfg, of "[LogInfo ''core.mongoose - connection - connected'']" "''ECONNRESET''"]
  have "dispatch connection_listener (Serving [LogInfo ''core.mongoose - connection - connected''])
          (ConnError ''ECONNRESET'') =
        Crashed ([LogInfo ''core.mongoose - connection - connected''] @
                 [LogError ''core.mongoose - connection - error - '' ''ECONNRESET'']) ''ECONNRESET''"
    by blast
  with cfg show ?thesis
    by simp
qed

end
